theory Spec2Isabelle
  imports Main "HOL-Library.Char_ord" "HOL-Library.List_Lexorder" "HOL-Library.Multiset"
    "HOL-Library.Word"
begin

section \<open>Strings\<close>

text \<open>
  A JavaScript string is modelled as a \<^typ>\<open>string\<close>: one \<^typ>\<open>char\<close> per UTF-16 code
  unit, restricted to the code units below \<open>0x100\<close>. \<open>length\<close> is \<open>String.length\<close>.
\<close>

definition startsWith :: "string \<Rightarrow> string \<Rightarrow> bool" where
  \<comment> \<open>\<open>s.startsWith(p)\<close>\<close>
  "startsWith s p = (take (length p) s = p)"

fun includes_str :: "string \<Rightarrow> string \<Rightarrow> bool" where
  \<comment> \<open>\<open>s.includes(sub)\<close>: \<open>sub\<close> occurs at some position of \<open>s\<close>\<close>
  "includes_str [] sub = (sub = [])"
| "includes_str (c # cs) sub = (startsWith (c # cs) sub \<or> includes_str cs sub)"

definition isWhiteSpace :: "char \<Rightarrow> bool" where
  \<comment> \<open>ECMAScript WhiteSpace and LineTerminator code units below \<open>0x100\<close>:
      TAB, LF, VT, FF, CR, SP, NBSP\<close>
  "isWhiteSpace c = (c \<in> set [CHR 0x09, CHR 0x0A, CHR 0x0B, CHR 0x0C, CHR 0x0D, CHR 0x20, CHR 0xA0])"

definition trim :: "string \<Rightarrow> string" where
  \<comment> \<open>\<open>String.prototype.trim\<close>\<close>
  "trim s = rev (dropWhile isWhiteSpace (rev (dropWhile isWhiteSpace s)))"

definition isUpper :: "char \<Rightarrow> bool" where
  \<comment> \<open>the code units below \<open>0x100\<close> that \<open>toLowerCase\<close> changes: A-Z and the
      Latin-1 capitals \<open>0xC0\<close>-\<open>0xDE\<close> without the multiplication sign \<open>0xD7\<close>\<close>
  "isUpper c = (let n = (of_char c :: nat) in
     (65 \<le> n \<and> n \<le> 90) \<or> (192 \<le> n \<and> n \<le> 222 \<and> n \<noteq> 215))"

fun setBit5 :: "char \<Rightarrow> char" where
  \<comment> \<open>adds \<open>0x20\<close> to a code unit whose bit 5 is clear\<close>
  "setBit5 (Char b0 b1 b2 b3 b4 b5 b6 b7) = Char b0 b1 b2 b3 b4 True b6 b7"

definition toLowerCase :: "string \<Rightarrow> string" where
  \<comment> \<open>\<open>String.prototype.toLowerCase\<close>\<close>
  "toLowerCase s = map (\<lambda>c. if isUpper c then setBit5 c else c) s"

fun joinWith :: "string \<Rightarrow> string list \<Rightarrow> string" where
  \<comment> \<open>\<open>Array.prototype.join(sep)\<close>\<close>
  "joinWith sep [] = []"
| "joinWith sep [x] = x"
| "joinWith sep (x # y # ys) = x @ sep @ joinWith sep (y # ys)"

section \<open>Node's \<open>path.join\<close> (POSIX)\<close>

fun splitSlash :: "string \<Rightarrow> string \<Rightarrow> string list" where
  \<comment> \<open>the segments between the slashes; the first argument is the segment read so far,
      reversed\<close>
  "splitSlash cur [] = [rev cur]"
| "splitSlash cur (c # cs) =
     (if c = CHR ''/'' then rev cur # splitSlash [] cs else splitSlash (c # cur) cs)"

fun normalizeString :: "bool \<Rightarrow> string list \<Rightarrow> string list \<Rightarrow> string list" where
  \<comment> \<open>\<open>res\<close> holds the segments kept so far, the last one first\<close>
  "normalizeString allowAboveRoot res [] = rev res"
| "normalizeString allowAboveRoot res (s # ss) =
     (if s = [] \<or> s = ''.'' then normalizeString allowAboveRoot res ss
      else if s = ''..'' then
        (case res of
           [] \<Rightarrow> normalizeString allowAboveRoot (if allowAboveRoot then [''..''] else []) ss
         | r # rs \<Rightarrow>
             if r \<noteq> ''..'' then normalizeString allowAboveRoot rs ss
             else normalizeString allowAboveRoot
                    (if allowAboveRoot then ''..'' # res else res) ss)
      else normalizeString allowAboveRoot (s # res) ss)"

definition normalize :: "string \<Rightarrow> string" where
  "normalize p =
     (if p = [] then ''.''
      else
        let isAbsolute = (hd p = CHR ''/'');
            trailingSeparator = (last p = CHR ''/'');
            path = joinWith ''/'' (normalizeString (\<not> isAbsolute) [] (splitSlash [] p))
        in if path = [] then (if isAbsolute then ''/'' else if trailingSeparator then ''./'' else ''.'')
           else (if isAbsolute then ''/'' else []) @ path @ (if trailingSeparator then ''/'' else []))"

definition path_join :: "string list \<Rightarrow> string" where
  "path_join args =
     (let joined = filter (\<lambda>a. a \<noteq> []) args
      in if joined = [] then ''.'' else normalize (joinWith ''/'' joined))"

section \<open>Process state\<close>

text \<open>
  The handlers act on the file system under the working directory and on the relational
  store behind the Prisma client. Both are state; every write and every attempted
  \<open>unlink\<close> is appended to a trace, so that the order of effects can be stated.

  The rows carry the columns the handlers read and write. The initial migration declares
  \<open>Category\<close> and \<open>Partner\<close>; the \<open>imageUrl\<close> columns and the \<open>Announcement\<close>
  table are known from the route handlers. Times are milliseconds since the epoch.
\<close>

type_synonym byte = "8 word"

record category_row =
  cat_id :: string
  cat_name :: string
  cat_imageUrl :: "string option"
  cat_createdAt :: int
  cat_updatedAt :: int

record partner_row =
  p_id :: string
  p_name :: string
  p_link :: string
  p_featured :: bool
  p_categoryId :: "string option"
  p_imageUrl :: "string option"
  p_createdAt :: int
  p_updatedAt :: int

record announcement_row =
  a_id :: string
  a_title :: string
  a_description :: string
  a_link :: string
  a_datePublished :: int
  a_imageUrl :: "string option"
  a_createdAt :: int
  a_updatedAt :: int

datatype tbl = CategoryTbl | PartnerTbl | AnnouncementTbl

datatype event =
    FsUnlink string
  | FsMkdir string
  | FsWriteFile string
  | DbCreate tbl string
  | DbUpdate tbl string
  | DbDelete tbl string

datatype exn =
    ENOENT string              \<comment> \<open>\<open>unlink\<close> of a missing file\<close>
  | EACCES string              \<comment> \<open>\<open>unlink\<close> refused by the file system\<close>
  | ForeignKeyViolation        \<comment> \<open>Prisma P2003\<close>
  | UniqueViolation            \<comment> \<open>Prisma P2002\<close>
  | RecordNotFound             \<comment> \<open>Prisma P2025\<close>
  | JsError string             \<comment> \<open>\<open>throw new Error(message)\<close>\<close>

record world =
  cwd :: string                               \<comment> \<open>\<open>process.cwd()\<close>\<close>
  files :: "string \<rightharpoonup> byte list"
  undeletable :: "string list"                \<comment> \<open>paths whose \<open>unlink\<close> the file system refuses\<close>
  category_tbl :: "category_row list"
  partner_tbl :: "partner_row list"
  announcement_tbl :: "announcement_row list"
  trace :: "event list"

definition unlink :: "world \<Rightarrow> string \<Rightarrow> (exn + unit) \<times> world" where
  \<comment> \<open>\<open>fs/promises.unlink\<close>: the attempt is traced whether or not it succeeds\<close>
  "unlink w p =
     (let w' = w\<lparr>trace := trace w @ [FsUnlink p]\<rparr>
      in if p \<in> set (undeletable w) then (Inl (EACCES p), w')
         else if files w p = None then (Inl (ENOENT p), w')
         else (Inr (), w'\<lparr>files := (files w)(p := None)\<rparr>))"

section \<open>\<open>lib/uploads.ts\<close>\<close>

fun isLocalUpload :: "string option \<Rightarrow> bool" where
  \<comment> \<open>\<open>!!url && url.startsWith("/uploads/") && !url.includes("..")\<close>;
      \<open>None\<close> is \<open>null\<close> or \<open>undefined\<close>\<close>
  "isLocalUpload None = False"
| "isLocalUpload (Some url) =
     (url \<noteq> [] \<and> startsWith url ''/uploads/'' \<and> \<not> includes_str url ''..'')"

definition toFsPath :: "world \<Rightarrow> string \<Rightarrow> string" where
  "toFsPath w url = path_join [cwd w, ''public'', url]"

definition deleteUploadIfLocal :: "world \<Rightarrow> string option \<Rightarrow> (exn + unit) \<times> world" where
  "deleteUploadIfLocal w url =
     (case url of
        None \<Rightarrow> (Inr (), w)
      | Some u \<Rightarrow>
          if \<not> isLocalUpload url then (Inr (), w)
          else (case unlink w (toFsPath w u) of
                  (Inl e, w') \<Rightarrow> (Inr (), w')   \<comment> \<open>\<open>catch { }\<close>\<close>
                | (Inr u', w') \<Rightarrow> (Inr (), w')))"

definition new_events :: "world \<Rightarrow> world \<Rightarrow> event list" where
  \<comment> \<open>what a run from \<open>w\<close> to \<open>w'\<close> appended to the trace\<close>
  "new_events w w' = drop (length (trace w)) (trace w')"

definition isUnlink :: "event \<Rightarrow> bool" where
  "isUnlink e = (case e of FsUnlink p \<Rightarrow> True | _ \<Rightarrow> False)"

section \<open>Request bodies and the environment\<close>

datatype json =
    JNull
  | JBool bool
  | JNum int
  | JStr string
  | JArr "json list"
  | JObj "(string \<times> json) list"   \<comment> \<open>the keys are distinct, as \<open>JSON.parse\<close> leaves them\<close>

text \<open>
  What the handlers take from outside the repository: the clock, the random bytes, and
  library functions that are left as parameters.
\<close>

record env =
  now :: int                                    \<comment> \<open>\<open>Date.now()\<close>, also the store's clock\<close>
  randomBytes6 :: "byte list"                   \<comment> \<open>\<open>randomBytes(6)\<close>\<close>
  is_url :: "string \<Rightarrow> bool"                    \<comment> \<open>what \<open>z.string().url()\<close> accepts\<close>
  coerce_date :: "json option \<Rightarrow> int option"    \<comment> \<open>\<open>new Date(v)\<close>; \<open>None\<close> is Invalid Date\<close>
  start_of_day :: "int \<Rightarrow> int"                  \<comment> \<open>local midnight of the same day\<close>
  extname :: "string \<Rightarrow> string"                 \<comment> \<open>\<open>path.extname\<close>\<close>

datatype 'a body =
    Data 'a                 \<comment> \<open>the record itself\<close>
  | Items "'a list"         \<comment> \<open>\<open>{ items }\<close>\<close>
  | Url string              \<comment> \<open>\<open>{ url }\<close>\<close>
  | OkTrue                  \<comment> \<open>\<open>{ ok: true }\<close>\<close>
  | Error string            \<comment> \<open>\<open>{ error }\<close>; the list of issues is left out\<close>
  | NoBody

type_synonym 'a response = "nat \<times> 'a body"   \<comment> \<open>\<open>NextResponse.json(body, { status })\<close>\<close>

section \<open>\<open>lib/validators.ts\<close>\<close>

datatype imageUrl = Undefined | Null | Str string

definition z_string :: "json option \<Rightarrow> string option" where
  "z_string v = (case v of Some (JStr s) \<Rightarrow> Some s | _ \<Rightarrow> None)"

definition z_boolean :: "json option \<Rightarrow> bool option" where
  "z_boolean v = (case v of Some (JBool b) \<Rightarrow> Some b | _ \<Rightarrow> None)"

definition test_http :: "string \<Rightarrow> bool" where
  \<comment> \<open>\<open>/^https?:\/\//i.test(v)\<close>\<close>
  "test_http v = (startsWith (toLowerCase v) ''http://'' \<or> startsWith (toLowerCase v) ''https://'')"

definition imageUrl_field :: "json option \<Rightarrow> imageUrl option" where
  \<comment> \<open>the \<open>imageUrl\<close> member, written out alike in the three schemas: the union of the
      trimmed and refined string, \<open>null\<close> and \<open>undefined\<close>, then the transform\<close>
  "imageUrl_field v =
     (case v of
        None \<Rightarrow> Some Undefined
      | Some JNull \<Rightarrow> Some Null
      | Some (JStr s) \<Rightarrow>
          (let t = trim s
           in if t = [] \<or> startsWith t ''/uploads/'' \<or> test_http t
              then Some (if t = [] then Null else Str t)
              else None)
      | Some _ \<Rightarrow> None)"

record PartnerInput =
  pi_name :: string
  pi_categoryId :: string
  pi_link :: string
  pi_featured :: bool
  pi_imageUrl :: imageUrl

definition partnerSchema :: "env \<Rightarrow> json \<Rightarrow> PartnerInput option" where
  "partnerSchema ev b =
     (case b of
        JObj kvs \<Rightarrow>
          (case (z_string (map_of kvs ''name''), z_string (map_of kvs ''categoryId''),
                 z_string (map_of kvs ''link''), z_boolean (map_of kvs ''featured''),
                 imageUrl_field (map_of kvs ''imageUrl'')) of
             (Some n, Some c, Some l, Some f, Some i) \<Rightarrow>
               if 2 \<le> length n \<and> 1 \<le> length c \<and> is_url ev l
               then Some \<lparr>pi_name = n, pi_categoryId = c, pi_link = l, pi_featured = f,
                           pi_imageUrl = i\<rparr>
               else None
           | _ \<Rightarrow> None)
      | _ \<Rightarrow> None)"

record CategoryInput =
  ci_name :: string
  ci_imageUrl :: imageUrl

definition categorySchema :: "json \<Rightarrow> CategoryInput option" where
  "categorySchema b =
     (case b of
        JObj kvs \<Rightarrow>
          (case (z_string (map_of kvs ''name''), imageUrl_field (map_of kvs ''imageUrl'')) of
             (Some n, Some i) \<Rightarrow>
               if 2 \<le> length (trim n) then Some \<lparr>ci_name = trim n, ci_imageUrl = i\<rparr> else None
           | _ \<Rightarrow> None)
      | _ \<Rightarrow> None)"

record AnnouncementInput =
  ai_title :: string
  ai_description :: string
  ai_link :: string
  ai_datePublished :: int
  ai_imageUrl :: imageUrl

definition announcementSchema :: "env \<Rightarrow> json \<Rightarrow> AnnouncementInput option" where
  "announcementSchema ev b =
     (case b of
        JObj kvs \<Rightarrow>
          (case (z_string (map_of kvs ''title''), z_string (map_of kvs ''description''),
                 z_string (map_of kvs ''link''), coerce_date ev (map_of kvs ''datePublished''),
                 imageUrl_field (map_of kvs ''imageUrl'')) of
             (Some t, Some d, Some l, Some dp, Some i) \<Rightarrow>
               if 2 \<le> length t \<and> length t \<le> 120 \<and> 2 \<le> length d \<and> length d \<le> 4000
                  \<and> is_url ev l
               then Some \<lparr>ai_title = t, ai_description = d, ai_link = l,
                           ai_datePublished = start_of_day ev dp, ai_imageUrl = i\<rparr>
               else None
           | _ \<Rightarrow> None)
      | _ \<Rightarrow> None)"

section \<open>The relational store\<close>

text \<open>
  The Prisma client is outside the repository. Its operations are modelled by what the
  handlers rely on and by the constraints the migration declares: a unique \<open>id\<close>, the
  unique index \<open>Category_name_key\<close> on the category name, the foreign key
  \<open>Partner_categoryId_fkey\<close> with \<open>ON DELETE SET NULL\<close>, and \<open>updatedAt\<close> refreshed on
  every update. A rejected write raises and leaves the tables as they were.
\<close>

fun insert_by :: "('a \<Rightarrow> 'a \<Rightarrow> bool) \<Rightarrow> 'a \<Rightarrow> 'a list \<Rightarrow> 'a list" where
  "insert_by le x [] = [x]"
| "insert_by le x (y # ys) = (if le x y then x # y # ys else y # insert_by le x ys)"

definition orderBy :: "('a \<Rightarrow> 'a \<Rightarrow> bool) \<Rightarrow> 'a list \<Rightarrow> 'a list" where
  \<comment> \<open>the rows sorted by \<open>le\<close>; rows that \<open>le\<close> does not tell apart keep their order\<close>
  "orderBy le xs = foldr (insert_by le) xs []"

definition findUnique :: "('r \<Rightarrow> string) \<Rightarrow> 'r list \<Rightarrow> string \<Rightarrow> 'r option" where
  \<comment> \<open>\<open>findUnique({ where: { id } })\<close>\<close>
  "findUnique key rows i = find (\<lambda>r. key r = i) rows"

definition as_column :: "imageUrl \<Rightarrow> string option" where
  \<comment> \<open>a supplied \<open>imageUrl\<close> as the column value it is written as\<close>
  "as_column v = (case v of Str s \<Rightarrow> Some s | _ \<Rightarrow> None)"

record partner_data =
  d_name :: string
  d_categoryId :: string
  d_link :: string
  d_featured :: bool
  d_imageUrl :: "string option option"   \<comment> \<open>\<open>None\<close>: the key is not in \<open>data\<close>\<close>

definition partner_set :: "env \<Rightarrow> partner_data \<Rightarrow> partner_row \<Rightarrow> partner_row" where
  \<comment> \<open>the row with \<open>data\<close> written into it\<close>
  "partner_set ev d r =
     r\<lparr>p_name := d_name d, p_categoryId := Some (d_categoryId d), p_link := d_link d,
       p_featured := d_featured d,
       p_imageUrl := (case d_imageUrl d of None \<Rightarrow> p_imageUrl r | Some v \<Rightarrow> v),
       p_updatedAt := now ev\<rparr>"

definition partner_update ::
  "env \<Rightarrow> world \<Rightarrow> string \<Rightarrow> partner_data \<Rightarrow> (exn + partner_row) \<times> world" where
  \<comment> \<open>\<open>prisma.partner.update({ where: { id }, data })\<close>\<close>
  "partner_update ev w i d =
     (case findUnique p_id (partner_tbl w) i of
        None \<Rightarrow> (Inl RecordNotFound, w)
      | Some old \<Rightarrow>
          if d_categoryId d \<notin> set (map cat_id (category_tbl w)) then (Inl ForeignKeyViolation, w)
          else (Inr (partner_set ev d old),
                w\<lparr>partner_tbl := map (\<lambda>r. if p_id r = i then partner_set ev d r else r)
                                    (partner_tbl w),
                   trace := trace w @ [DbUpdate PartnerTbl i]\<rparr>))"

record announcement_data =
  ad_title :: string
  ad_description :: string
  ad_link :: string
  ad_datePublished :: int
  ad_imageUrl :: "string option option"

definition announcement_set :: "env \<Rightarrow> announcement_data \<Rightarrow> announcement_row \<Rightarrow> announcement_row" where
  "announcement_set ev d r =
     r\<lparr>a_title := ad_title d, a_description := ad_description d, a_link := ad_link d,
       a_datePublished := ad_datePublished d,
       a_imageUrl := (case ad_imageUrl d of None \<Rightarrow> a_imageUrl r | Some v \<Rightarrow> v),
       a_updatedAt := now ev\<rparr>"

definition announcement_update ::
  "env \<Rightarrow> world \<Rightarrow> string \<Rightarrow> announcement_data \<Rightarrow> (exn + announcement_row) \<times> world" where
  \<comment> \<open>\<open>prisma.announcement.update({ where: { id }, data })\<close>\<close>
  "announcement_update ev w i d =
     (case findUnique a_id (announcement_tbl w) i of
        None \<Rightarrow> (Inl RecordNotFound, w)
      | Some old \<Rightarrow>
          (Inr (announcement_set ev d old),
           w\<lparr>announcement_tbl := map (\<lambda>r. if a_id r = i then announcement_set ev d r else r)
                                    (announcement_tbl w),
              trace := trace w @ [DbUpdate AnnouncementTbl i]\<rparr>))"

definition category_delete :: "world \<Rightarrow> string \<Rightarrow> (exn + category_row) \<times> world" where
  \<comment> \<open>\<open>prisma.category.delete({ where: { id } })\<close>; the foreign key sets the
      \<open>categoryId\<close> of the referencing partners to NULL\<close>
  "category_delete w i =
     (case findUnique cat_id (category_tbl w) i of
        None \<Rightarrow> (Inl RecordNotFound, w)
      | Some old \<Rightarrow>
          (Inr old,
           w\<lparr>category_tbl := filter (\<lambda>c. cat_id c \<noteq> i) (category_tbl w),
              partner_tbl := map (\<lambda>p. if p_categoryId p = Some i then p\<lparr>p_categoryId := None\<rparr> else p)
                               (partner_tbl w),
              trace := trace w @ [DbDelete CategoryTbl i]\<rparr>))"

definition category_create ::
  "env \<Rightarrow> world \<Rightarrow> string \<Rightarrow> CategoryInput \<Rightarrow> (exn + category_row) \<times> world" where
  \<comment> \<open>\<open>prisma.category.create({ data })\<close> with the generated id \<open>new_id\<close>. The primary
      key and the unique index \<open>Category_name_key\<close> reject a row whose id or name is
      stored already; the index is declared on \<open>"name"\<close> with no collation, so names are
      compared as they are\<close>
  "category_create ev w new_id d =
     (if new_id \<in> set (map cat_id (category_tbl w)) \<or> ci_name d \<in> set (map cat_name (category_tbl w))
      then (Inl UniqueViolation, w)
      else
        let row = \<lparr>cat_id = new_id, cat_name = ci_name d, cat_imageUrl = as_column (ci_imageUrl d),
                   cat_createdAt = now ev, cat_updatedAt = now ev\<rparr>
        in (Inr row,
            w\<lparr>category_tbl := category_tbl w @ [row],
               trace := trace w @ [DbCreate CategoryTbl new_id]\<rparr>))"

section \<open>The route handlers\<close>

text \<open>
  A handler takes the state, \<open>params.id\<close> and the body as
  \<open>await req.json().catch(() => ({}))\<close> leaves it, and returns the response, or the
  exception that escapes it, together with the new state.
\<close>

definition partners_PUT ::
  "env \<Rightarrow> world \<Rightarrow> string \<Rightarrow> json \<Rightarrow> (exn + partner_row response) \<times> world" where
  \<comment> \<open>\<open>api/partners/[id]/route.ts\<close>, \<open>PUT\<close>\<close>
  "partners_PUT ev w i b =
     (case partnerSchema ev b of
        None \<Rightarrow> (Inr (400, Error ''Invalid input''), w)
      | Some parsed \<Rightarrow>
          (case findUnique p_id (partner_tbl w) i of
             None \<Rightarrow> (Inr (404, Error ''Not found''), w)
           | Some existing \<Rightarrow>
               let imageUrl = pi_imageUrl parsed;
                   d = \<lparr>d_name = pi_name parsed, d_categoryId = pi_categoryId parsed,
                        d_link = pi_link parsed, d_featured = pi_featured parsed,
                        d_imageUrl = (if imageUrl \<noteq> Undefined then Some (as_column imageUrl)
                                      else None)\<rparr>
               in (case partner_update ev w i d of
                     (Inl e, w1) \<Rightarrow> (Inl e, w1)
                   | (Inr updated, w1) \<Rightarrow>
                       if imageUrl \<noteq> Undefined \<and> as_column imageUrl \<noteq> p_imageUrl existing
                       then (case deleteUploadIfLocal w1 (p_imageUrl existing) of
                               (Inl e, w2) \<Rightarrow> (Inl e, w2)
                             | (Inr u, w2) \<Rightarrow> (Inr (200, Data updated), w2))
                       else (Inr (200, Data updated), w1))))"

definition announcements_PUT ::
  "env \<Rightarrow> world \<Rightarrow> string \<Rightarrow> json \<Rightarrow> (exn + announcement_row response) \<times> world" where
  \<comment> \<open>\<open>api/announcements/[id]/route.ts\<close>, \<open>PUT\<close>\<close>
  "announcements_PUT ev w i b =
     (case announcementSchema ev b of
        None \<Rightarrow> (Inr (400, Error ''Invalid input''), w)
      | Some parsed \<Rightarrow>
          (case findUnique a_id (announcement_tbl w) i of
             None \<Rightarrow> (Inr (404, Error ''Not found''), w)
           | Some existing \<Rightarrow>
               let suppliedImage = ai_imageUrl parsed;
                   d = \<lparr>ad_title = ai_title parsed, ad_description = ai_description parsed,
                        ad_link = ai_link parsed, ad_datePublished = ai_datePublished parsed,
                        ad_imageUrl = (if suppliedImage \<noteq> Undefined
                                       then Some (as_column suppliedImage) else None)\<rparr>
               in (case announcement_update ev w i d of
                     (Inl e, w1) \<Rightarrow> (Inl e, w1)
                   | (Inr updated, w1) \<Rightarrow>
                       if suppliedImage \<noteq> Undefined \<and> as_column suppliedImage \<noteq> a_imageUrl existing
                       then (case deleteUploadIfLocal w1 (a_imageUrl existing) of
                               (Inl e, w2) \<Rightarrow> (Inl e, w2)
                             | (Inr u, w2) \<Rightarrow> (Inr (200, Data updated), w2))
                       else (Inr (200, Data updated), w1))))"

definition categories_GET :: "world \<Rightarrow> category_row response" where
  \<comment> \<open>\<open>orderBy: { name: "asc" }\<close>\<close>
  "categories_GET w = (200, Items (orderBy (\<lambda>x y. cat_name x \<le> cat_name y) (category_tbl w)))"

definition partners_GET :: "world \<Rightarrow> partner_row response" where
  \<comment> \<open>\<open>orderBy: { createdAt: "desc" }\<close>\<close>
  "partners_GET w = (200, Items (orderBy (\<lambda>x y. p_createdAt x \<ge> p_createdAt y) (partner_tbl w)))"

definition announcements_GET :: "world \<Rightarrow> announcement_row response" where
  \<comment> \<open>\<open>orderBy: [{ datePublished: "desc" }, { createdAt: "desc" }]\<close>\<close>
  "announcements_GET w =
     (200, Items (orderBy (\<lambda>x y. a_datePublished x > a_datePublished y
                             \<or> (a_datePublished x = a_datePublished y \<and> a_createdAt x \<ge> a_createdAt y))
                    (announcement_tbl w)))"

definition categories_POST ::
  "env \<Rightarrow> world \<Rightarrow> string \<Rightarrow> json \<Rightarrow> (exn + category_row response) \<times> world" where
  \<comment> \<open>\<open>api/categories/route.ts\<close>, \<open>POST\<close>; \<open>new_id\<close> is the id generated for the row\<close>
  "categories_POST ev w new_id b =
     (case categorySchema b of
        None \<Rightarrow> (Inr (400, Error ''Invalid input''), w)
      | Some parsed \<Rightarrow>
          (case category_create ev w new_id parsed of
             (Inl e, w1) \<Rightarrow> (Inl e, w1)
           | (Inr cat, w1) \<Rightarrow> (Inr (201, Data cat), w1)))"

section \<open>\<open>api/upload/route.ts\<close>\<close>

record upload_file =
  file_name :: string
  file_type :: string
  file_bytes :: "byte list"     \<comment> \<open>\<open>file.size\<close> is their number\<close>

datatype form_value = NoValue | TextValue string | FileValue upload_file
  \<comment> \<open>what \<open>form.get("file")\<close> returns: \<open>null\<close>, a string or a \<open>File\<close>\<close>

definition MAX_BYTES :: nat where
  "MAX_BYTES = 5 * 1024 * 1024"

definition ALLOWED :: "string list" where
  "ALLOWED = [''image/jpeg'', ''image/png'', ''image/webp'', ''image/gif'']"

definition digit :: "nat \<Rightarrow> char" where
  "digit n = ''0123456789abcdef'' ! n"

fun show_nat :: "nat \<Rightarrow> string" where
  "show_nat n = (if n < 10 then [digit n] else show_nat (n div 10) @ [digit (n mod 10)])"

declare show_nat.simps [simp del]

definition show_int :: "int \<Rightarrow> string" where
  "show_int i = (if i < 0 then ''-'' @ show_nat (nat (- i)) else show_nat (nat i))"

definition toHex :: "byte list \<Rightarrow> string" where
  \<comment> \<open>\<open>buffer.toString("hex")\<close>\<close>
  "toHex bs = concat (map (\<lambda>b. [digit (unat b div 16), digit (unat b mod 16)]) bs)"

definition upload_POST :: "env \<Rightarrow> world \<Rightarrow> form_value \<Rightarrow> (exn + string response) \<times> world" where
  "upload_POST ev w file =
     (case file of
        FileValue f \<Rightarrow>
          let ty = (if file_type f \<noteq> [] then file_type f else ''application/octet-stream'')
          in if ty \<notin> set ALLOWED then (Inr (400, Error ''Unsupported file type''), w)
             else if length (file_bytes f) > MAX_BYTES
             then (Inr (400, Error ''File too large (max 5MB)''), w)
             else
               let origExt = (if file_name f \<noteq> [] then extname ev (file_name f) else []);
                   ext = (if ty = ''image/jpeg'' then ''.jpg''
                          else if ty = ''image/png'' then ''.png''
                          else if ty = ''image/webp'' then ''.webp''
                          else if ty = ''image/gif'' then ''.gif''
                          else if origExt \<noteq> [] then origExt else ''.bin'');
                   dir = cwd w @ ''/public/uploads'';
                   name = show_int (now ev) @ ''_'' @ toHex (randomBytes6 ev) @ ext;
                   fullPath = dir @ ''/'' @ name;
                   w1 = w\<lparr>trace := trace w @ [FsMkdir dir]\<rparr>;
                   w2 = w1\<lparr>files := (files w1)(fullPath \<mapsto> file_bytes f),
                           trace := trace w1 @ [FsWriteFile fullPath]\<rparr>
               in (Inr (201, Url (''/uploads/'' @ name)), w2)
      | _ \<Rightarrow> (Inr (400, Error ''No file provided''), w))"

datatype http_method = GET | POST | PUT | DELETE | PATCH

definition upload_route_exports :: "http_method list" where
  \<comment> \<open>the handlers the route module exports\<close>
  "upload_route_exports = [POST]"

definition upload_route ::
  "env \<Rightarrow> world \<Rightarrow> http_method \<Rightarrow> form_value \<Rightarrow> (exn + string response) \<times> world" where
  \<comment> \<open>a request to \<open>/api/upload\<close>: the framework answers 405 for a method the module
      exports no handler for\<close>
  "upload_route ev w m file =
     (if m \<in> set upload_route_exports then upload_POST ev w file else (Inr (405, NoBody), w))"

section \<open>The in-memory store\<close>

record Category =
  Category_id :: string
  Category_name :: string

record Partner =
  Partner_id :: string
  Partner_name :: string
  categoryId :: string          \<comment> \<open>\<open>categoryId: string; // FK to Category.id\<close>\<close>
  link :: string
  featured :: bool
  createdAt :: string
  updatedAt :: string

record db =
  db_categories :: "Category list"    \<comment> \<open>\<open>_categories\<close>\<close>
  db_partners :: "Partner list"       \<comment> \<open>\<open>_partners\<close>\<close>

definition initial_db :: "string \<Rightarrow> string \<Rightarrow> db" where
  \<comment> \<open>the module's initial state; the arguments are the two \<open>new Date().toISOString()\<close>\<close>
  "initial_db t1 t2 =
     \<lparr>db_categories =
        [\<lparr>Category_id = ''cat_exch'', Category_name = ''Exchange''\<rparr>,
         \<lparr>Category_id = ''cat_brand'', Category_name = ''Brand''\<rparr>,
         \<lparr>Category_id = ''cat_media'', Category_name = ''Media''\<rparr>],
      db_partners =
        [\<lparr>Partner_id = ''p_okx'', Partner_name = ''OKX'', categoryId = ''cat_exch'',
          link = ''https://www.okx.com'', featured = True, createdAt = t1, updatedAt = t2\<rparr>]\<rparr>"

definition newId :: "string \<Rightarrow> string \<Rightarrow> string" where
  \<comment> \<open>\<open>rnd\<close> is \<open>Math.random().toString(36).slice(2, 10)\<close>\<close>
  "newId rnd prefix = prefix @ ''_'' @ rnd"

definition listCategories :: "(string \<Rightarrow> string \<Rightarrow> int) \<Rightarrow> db \<Rightarrow> Category list" where
  \<comment> \<open>the first argument is \<open>String.prototype.localeCompare\<close>\<close>
  "listCategories localeCompare s =
     orderBy (\<lambda>a b. localeCompare (Category_name a) (Category_name b) \<le> 0) (db_categories s)"

definition createCategory :: "string \<Rightarrow> db \<Rightarrow> string \<Rightarrow> (exn + Category) \<times> db" where
  "createCategory rnd s name =
     (if list_ex (\<lambda>c. toLowerCase (Category_name c) = toLowerCase name) (db_categories s)
      then (Inl (JsError ''Category already exists''), s)
      else
        let cat = \<lparr>Category_id = newId rnd ''cat'', Category_name = name\<rparr>
        in (Inr cat, s\<lparr>db_categories := cat # db_categories s\<rparr>))"

fun findIndex :: "('a \<Rightarrow> bool) \<Rightarrow> 'a list \<Rightarrow> nat option" where
  \<comment> \<open>\<open>Array.prototype.findIndex\<close>; \<open>None\<close> is \<open>-1\<close>\<close>
  "findIndex P [] = None"
| "findIndex P (x # xs) = (if P x then Some 0 else map_option Suc (findIndex P xs))"

definition updateCategory :: "db \<Rightarrow> string \<Rightarrow> string \<Rightarrow> Category option \<times> db" where
  \<comment> \<open>\<open>None\<close> is the \<open>null\<close> returned for an unknown id\<close>
  "updateCategory s i name =
     (case findIndex (\<lambda>c. Category_id c = i) (db_categories s) of
        None \<Rightarrow> (None, s)
      | Some idx \<Rightarrow>
          let c = (db_categories s ! idx)\<lparr>Category_name := name\<rparr>
          in (Some c, s\<lparr>db_categories := (db_categories s)[idx := c]\<rparr>))"

definition deleteCategory :: "db \<Rightarrow> string \<Rightarrow> bool \<times> db" where
  "deleteCategory s i =
     (let partners' = map (\<lambda>p. if categoryId p = i then p\<lparr>categoryId := []\<rparr> else p) (db_partners s);
          before = length (db_categories s);
          categories' = filter (\<lambda>c. Category_id c \<noteq> i) (db_categories s)
      in (length categories' < before, s\<lparr>db_categories := categories', db_partners := partners'\<rparr>))"

section \<open>Example states\<close>

definition example_env :: env where
  "example_env =
     \<lparr>now = 1700000000000,
      randomBytes6 = [0xDE, 0xAD, 0xBE, 0xEF, 0x00, 0x01],
      is_url = test_http,
      coerce_date = (\<lambda>v. case v of Some (JNum n) \<Rightarrow> Some n | _ \<Rightarrow> None),
      start_of_day = (\<lambda>t. t - t mod 86400000),
      extname = (\<lambda>s. [])\<rparr>"

definition example_world :: world where
  "example_world =
     \<lparr>cwd = ''/app'',
      files = [''/app/public/uploads/abc.jpg'' \<mapsto> [1, 2, 3], ''/app/public/uploads/old.png'' \<mapsto> [4]],
      undeletable = [],
      category_tbl =
        [\<lparr>cat_id = ''c1'', cat_name = ''Exchange'', cat_imageUrl = None,
          cat_createdAt = 10, cat_updatedAt = 10\<rparr>,
         \<lparr>cat_id = ''c2'', cat_name = ''Brand'', cat_imageUrl = None,
          cat_createdAt = 20, cat_updatedAt = 20\<rparr>],
      partner_tbl =
        [\<lparr>p_id = ''p1'', p_name = ''OKX'', p_link = ''https://okx.com'', p_featured = True,
          p_categoryId = Some ''c1'', p_imageUrl = Some ''/uploads/abc.jpg'',
          p_createdAt = 30, p_updatedAt = 30\<rparr>,
         \<lparr>p_id = ''p2'', p_name = ''Acme'', p_link = ''https://acme.example'', p_featured = False,
          p_categoryId = Some ''c2'', p_imageUrl = Some ''https://cdn.example/logo.png'',
          p_createdAt = 40, p_updatedAt = 40\<rparr>],
      announcement_tbl =
        [\<lparr>a_id = ''a1'', a_title = ''Launch'', a_description = ''We are live'',
          a_link = ''https://trl.example/launch'', a_datePublished = 200,
          a_imageUrl = Some ''/uploads/old.png'', a_createdAt = 50, a_updatedAt = 50\<rparr>,
         \<lparr>a_id = ''a2'', a_title = ''Recap'', a_description = ''Last year'',
          a_link = ''https://trl.example/recap'', a_datePublished = 100,
          a_imageUrl = None, a_createdAt = 60, a_updatedAt = 60\<rparr>],
      trace = []\<rparr>"

definition partner_body :: "json option \<Rightarrow> json" where
  \<comment> \<open>a partner payload with the given \<open>imageUrl\<close> member; \<open>None\<close> leaves it out\<close>
  "partner_body img =
     JObj ([(''name'', JStr ''OKX''), (''categoryId'', JStr ''c1''),
            (''link'', JStr ''https://okx.com''), (''featured'', JBool True)]
           @ (case img of None \<Rightarrow> [] | Some v \<Rightarrow> [(''imageUrl'', v)]))"

definition announcement_body :: "json option \<Rightarrow> json" where
  "announcement_body img =
     JObj ([(''title'', JStr ''Launch''), (''description'', JStr ''We are live''),
            (''link'', JStr ''https://trl.example/launch''), (''datePublished'', JNum 86400000)]
           @ (case img of None \<Rightarrow> [] | Some v \<Rightarrow> [(''imageUrl'', v)]))"

section \<open>Facts about the string functions\<close>

lemma startsWith_iff: "startsWith s p \<longleftrightarrow> (\<exists>r. s = p @ r)"
proof
  assume "startsWith s p"
  then have "s = p @ drop (length p) s"
    unfolding startsWith_def by (metis append_take_drop_id)
  then show "\<exists>r. s = p @ r" ..
next
  assume "\<exists>r. s = p @ r"
  then show "startsWith s p" unfolding startsWith_def by auto
qed

lemma includes_iff: "includes_str s sub \<longleftrightarrow> (\<exists>xs ys. s = xs @ sub @ ys)"
proof (induction s)
  case Nil
  show ?case by auto
next
  case (Cons c cs)
  show ?case
  proof
    assume "includes_str (c # cs) sub"
    then consider "startsWith (c # cs) sub" | "includes_str cs sub" by auto
    then show "\<exists>xs ys. c # cs = xs @ sub @ ys"
    proof cases
      case 1
      then obtain r where "c # cs = sub @ r" using startsWith_iff by blast
      then have "c # cs = [] @ sub @ r" by simp
      then show ?thesis by blast
    next
      case 2
      then obtain xs ys where "cs = xs @ sub @ ys" using Cons.IH by blast
      then have "c # cs = (c # xs) @ sub @ ys" by simp
      then show ?thesis by blast
    qed
  next
    assume "\<exists>xs ys. c # cs = xs @ sub @ ys"
    then obtain xs ys where e: "c # cs = xs @ sub @ ys" by blast
    show "includes_str (c # cs) sub"
    proof (cases xs)
      case Nil
      with e have "startsWith (c # cs) sub" using startsWith_iff by auto
      then show ?thesis by simp
    next
      case (Cons x xs')
      with e have "cs = xs' @ sub @ ys" by simp
      then have "includes_str cs sub" using Cons.IH by blast
      then show ?thesis by simp
    qed
  qed
qed

section \<open>Blob removal\<close>

lemma deleteUploadIfLocal_result: "fst (deleteUploadIfLocal w url) = Inr ()"
  by (auto simp: deleteUploadIfLocal_def split: option.splits prod.splits sum.splits)

lemma deleteUploadIfLocal_trace:
  "trace (snd (deleteUploadIfLocal w url)) =
     trace w @ (if isLocalUpload url then [FsUnlink (toFsPath w (the url))] else [])"
  by (cases url)
     (auto simp: deleteUploadIfLocal_def unlink_def Let_def split: prod.splits sum.splits)

lemma deleteUploadIfLocal_new_events:
  "new_events w (snd (deleteUploadIfLocal w url)) =
     (if isLocalUpload url then [FsUnlink (toFsPath w (the url))] else [])"
  by (simp add: new_events_def deleteUploadIfLocal_trace)

text \<open>
  C5. \<open>deleteUploadIfLocal\<close> never raises: for every address and every state of the file
  system it returns normally, also when \<open>unlink\<close> fails with file-not-found or with a
  refusal. It attempts an \<open>unlink\<close> only for an address that starts with \<open>/uploads/\<close>
  and contains no \<open>..\<close>, and then exactly one, of the file the address maps to.
\<close>

theorem deleteUploadIfLocal_never_raises:
  "fst (deleteUploadIfLocal w url) = Inr () \<and>
   ((\<exists>e \<in> set (new_events w (snd (deleteUploadIfLocal w url))). isUnlink e) \<longrightarrow>
      (\<exists>r. url = Some (''/uploads/'' @ r) \<and> \<not> (\<exists>xs ys. ''/uploads/'' @ r = xs @ ''..'' @ ys)
         \<and> new_events w (snd (deleteUploadIfLocal w url))
             = [FsUnlink (toFsPath w (''/uploads/'' @ r))]))"
proof (intro conjI impI)
  show "fst (deleteUploadIfLocal w url) = Inr ()" by (rule deleteUploadIfLocal_result)
next
  assume "\<exists>e \<in> set (new_events w (snd (deleteUploadIfLocal w url))). isUnlink e"
  then have loc: "isLocalUpload url"
    by (auto simp: deleteUploadIfLocal_new_events split: if_splits)
  then obtain u where u: "url = Some u" by (cases url) auto
  with loc have "startsWith u ''/uploads/''" and ni: "\<not> includes_str u ''..''" by auto
  then obtain r where r: "u = ''/uploads/'' @ r" using startsWith_iff by blast
  from ni have "\<not> (\<exists>xs ys. u = xs @ ''..'' @ ys)" using includes_iff by blast
  with u r loc show "\<exists>r. url = Some (''/uploads/'' @ r)
      \<and> \<not> (\<exists>xs ys. ''/uploads/'' @ r = xs @ ''..'' @ ys)
      \<and> new_events w (snd (deleteUploadIfLocal w url))
          = [FsUnlink (toFsPath w (''/uploads/'' @ r))]"
    by (auto simp: deleteUploadIfLocal_new_events)
qed

lemma toFsPath_example:
  "toFsPath example_world ''/uploads/abc.jpg'' = ''/app/public/uploads/abc.jpg''"
  by (simp add: toFsPath_def path_join_def normalize_def example_world_def)

theorem deleteUploadIfLocal_never_raises_witness:
  "fst (deleteUploadIfLocal example_world (Some ''/uploads/abc.jpg'')) = Inr () \<and>
   (\<exists>e \<in> set (new_events example_world
        (snd (deleteUploadIfLocal example_world (Some ''/uploads/abc.jpg'')))). isUnlink e) \<and>
   new_events example_world (snd (deleteUploadIfLocal example_world (Some ''/uploads/abc.jpg'')))
     = [FsUnlink ''/app/public/uploads/abc.jpg'']"
proof -
  have ev: "new_events example_world
              (snd (deleteUploadIfLocal example_world (Some ''/uploads/abc.jpg'')))
            = [FsUnlink ''/app/public/uploads/abc.jpg'']"
    by (simp add: deleteUploadIfLocal_new_events startsWith_def toFsPath_example)
  then have "\<exists>e \<in> set (new_events example_world
        (snd (deleteUploadIfLocal example_world (Some ''/uploads/abc.jpg'')))). isUnlink e"
    by (simp add: isUnlink_def)
  with ev deleteUploadIfLocal_never_raises [of example_world "Some ''/uploads/abc.jpg''"]
  show ?thesis by simp
qed

lemma deleteUploadIfLocal_swallows_ENOENT:
  "fst (unlink example_world ''/app/public/uploads/gone.jpg'')
     = Inl (ENOENT ''/app/public/uploads/gone.jpg'') \<and>
   deleteUploadIfLocal example_world (Some ''/uploads/gone.jpg'')
     = (Inr (), example_world\<lparr>trace := [FsUnlink ''/app/public/uploads/gone.jpg'']\<rparr>)"
proof -
  have p: "toFsPath example_world ''/uploads/gone.jpg'' = ''/app/public/uploads/gone.jpg''"
    by (simp add: toFsPath_def path_join_def normalize_def example_world_def)
  have u: "unlink example_world ''/app/public/uploads/gone.jpg''
             = (Inl (ENOENT ''/app/public/uploads/gone.jpg''),
                example_world\<lparr>trace := [FsUnlink ''/app/public/uploads/gone.jpg'']\<rparr>)"
    by (simp add: unlink_def example_world_def)
  show ?thesis
    by (simp add: deleteUploadIfLocal_def startsWith_def p u)
qed

section \<open>Updating a record and its image\<close>

lemma deleteUploadIfLocal_eq:
  "deleteUploadIfLocal w url = (Inr (), snd (deleteUploadIfLocal w url))"
  using deleteUploadIfLocal_result [of w url] by (cases "deleteUploadIfLocal w url") simp

lemma case_deleteUploadIfLocal:
  "(case deleteUploadIfLocal w url of (r, w2) \<Rightarrow> (case r of Inl e \<Rightarrow> f e w2 | Inr x \<Rightarrow> g x w2))
     = g () (snd (deleteUploadIfLocal w url))"
  using deleteUploadIfLocal_result [of w url]
  by (cases "deleteUploadIfLocal w url") (auto split: sum.splits)

lemma deleteUploadIfLocal_tables:
  "partner_tbl (snd (deleteUploadIfLocal w url)) = partner_tbl w"
  "announcement_tbl (snd (deleteUploadIfLocal w url)) = announcement_tbl w"
  "category_tbl (snd (deleteUploadIfLocal w url)) = category_tbl w"
  "cwd (snd (deleteUploadIfLocal w url)) = cwd w"
  by (cases url; auto simp: deleteUploadIfLocal_def unlink_def Let_def split: prod.splits sum.splits)+


lemma findUnique_key: "findUnique key rows i = Some r \<Longrightarrow> key r = i"
  unfolding findUnique_def by (induction rows) (auto split: if_splits)


lemma test_http_okx: "test_http ''https://okx.com''"
  by (simp add: test_http_def toLowerCase_def isUpper_def startsWith_def)

lemma test_http_trl: "test_http ''https://trl.example/launch''"
  by (simp add: test_http_def toLowerCase_def isUpper_def startsWith_def)

lemma partnerSchema_example:
  "partnerSchema example_env (partner_body img) =
     map_option (\<lambda>v. \<lparr>pi_name = ''OKX'', pi_categoryId = ''c1'', pi_link = ''https://okx.com'',
                      pi_featured = True, pi_imageUrl = v\<rparr>) (imageUrl_field img)"
  by (cases img)
     (auto simp: partnerSchema_def partner_body_def z_string_def z_boolean_def example_env_def
        test_http_okx imageUrl_field_def split: option.splits)

lemma announcementSchema_example:
  "announcementSchema example_env (announcement_body img) =
     map_option (\<lambda>v. \<lparr>ai_title = ''Launch'', ai_description = ''We are live'',
                      ai_link = ''https://trl.example/launch'', ai_datePublished = 86400000,
                      ai_imageUrl = v\<rparr>) (imageUrl_field img)"
  by (cases img)
     (auto simp: announcementSchema_def announcement_body_def z_string_def example_env_def
        test_http_trl imageUrl_field_def split: option.splits)

lemma now_example: "now example_env = 1700000000000"
  by (simp add: example_env_def)




lemma partners_PUT_foreign_key:
  "partners_PUT example_env example_world ''p1''
     (JObj [(''name'', JStr ''OKX''), (''categoryId'', JStr ''c9''),
            (''link'', JStr ''https://okx.com''), (''featured'', JBool True),
            (''imageUrl'', JNull)])
   = (Inl ForeignKeyViolation, example_world)"
  by (simp add: partners_PUT_def partnerSchema_def z_string_def z_boolean_def imageUrl_field_def
        example_env_def test_http_okx findUnique_def partner_update_def example_world_def
        as_column_def)

















section \<open>Validation of the image member\<close>

lemma imageUrl_field_blank: "trim s = [] \<Longrightarrow> imageUrl_field (Some (JStr s)) = Some Null"
  by (simp add: imageUrl_field_def)

lemma imageUrl_field_not_empty: "imageUrl_field v = Some x \<Longrightarrow> x \<noteq> Str []"
  by (auto simp: imageUrl_field_def Let_def split: option.splits json.splits if_splits)

lemma partnerSchema_imageUrl:
  "partnerSchema ev (JObj kvs) = Some p \<Longrightarrow> imageUrl_field (map_of kvs ''imageUrl'') = Some (pi_imageUrl p)"
  by (auto simp: partnerSchema_def split: option.splits if_splits)

lemma categorySchema_imageUrl:
  "categorySchema (JObj kvs) = Some c \<Longrightarrow> imageUrl_field (map_of kvs ''imageUrl'') = Some (ci_imageUrl c)"
  by (auto simp: categorySchema_def split: option.splits if_splits)

lemma announcementSchema_imageUrl:
  "announcementSchema ev (JObj kvs) = Some a \<Longrightarrow> imageUrl_field (map_of kvs ''imageUrl'') = Some (ai_imageUrl a)"
  by (auto simp: announcementSchema_def split: option.splits if_splits)

lemma schema_object:
  "partnerSchema ev b = Some p \<Longrightarrow> \<exists>kvs. b = JObj kvs"
  "categorySchema b = Some c \<Longrightarrow> \<exists>kvs. b = JObj kvs"
  "announcementSchema ev b = Some a \<Longrightarrow> \<exists>kvs. b = JObj kvs"
  by (auto simp: partnerSchema_def categorySchema_def announcementSchema_def split: json.splits)

text \<open>
  C10. In every payload that the partner, category or announcement schema accepts, an
  \<open>imageUrl\<close> string that is empty, or empty once trimmed, is parsed to \<open>null\<close>; and no
  accepted payload has the empty string as its parsed \<open>imageUrl\<close>. So a \<open>PUT\<close> never
  stores an empty \<open>imageUrl\<close> that was not stored before.
\<close>

theorem blank_imageUrl_parses_to_null:
  "(partnerSchema ev (JObj kvs) = Some p \<longrightarrow>
      pi_imageUrl p \<noteq> Str [] \<and>
      (\<forall>s. map_of kvs ''imageUrl'' = Some (JStr s) \<and> trim s = [] \<longrightarrow> pi_imageUrl p = Null)) \<and>
   (categorySchema (JObj kvs) = Some c \<longrightarrow>
      ci_imageUrl c \<noteq> Str [] \<and>
      (\<forall>s. map_of kvs ''imageUrl'' = Some (JStr s) \<and> trim s = [] \<longrightarrow> ci_imageUrl c = Null)) \<and>
   (announcementSchema ev (JObj kvs) = Some a \<longrightarrow>
      ai_imageUrl a \<noteq> Str [] \<and>
      (\<forall>s. map_of kvs ''imageUrl'' = Some (JStr s) \<and> trim s = [] \<longrightarrow> ai_imageUrl a = Null)) \<and>
   (Some [] \<notin> set (map p_imageUrl (partner_tbl w)) \<longrightarrow>
      Some [] \<notin> set (map p_imageUrl (partner_tbl (snd (partners_PUT ev w i b))))) \<and>
   (Some [] \<notin> set (map a_imageUrl (announcement_tbl w)) \<longrightarrow>
      Some [] \<notin> set (map a_imageUrl (announcement_tbl (snd (announcements_PUT ev w i b)))))"
proof (intro conjI impI allI)
  assume "partnerSchema ev (JObj kvs) = Some p"
  from partnerSchema_imageUrl [OF this] show "pi_imageUrl p \<noteq> Str []"
    by (rule imageUrl_field_not_empty)
next
  fix s assume "partnerSchema ev (JObj kvs) = Some p"
    and "map_of kvs ''imageUrl'' = Some (JStr s) \<and> trim s = []"
  with partnerSchema_imageUrl [of ev kvs p] imageUrl_field_blank [of s]
  show "pi_imageUrl p = Null" by simp
next
  assume "categorySchema (JObj kvs) = Some c"
  from categorySchema_imageUrl [OF this] show "ci_imageUrl c \<noteq> Str []"
    by (rule imageUrl_field_not_empty)
next
  fix s assume "categorySchema (JObj kvs) = Some c"
    and "map_of kvs ''imageUrl'' = Some (JStr s) \<and> trim s = []"
  with categorySchema_imageUrl [of kvs c] imageUrl_field_blank [of s]
  show "ci_imageUrl c = Null" by simp
next
  assume "announcementSchema ev (JObj kvs) = Some a"
  from announcementSchema_imageUrl [OF this] show "ai_imageUrl a \<noteq> Str []"
    by (rule imageUrl_field_not_empty)
next
  fix s assume "announcementSchema ev (JObj kvs) = Some a"
    and "map_of kvs ''imageUrl'' = Some (JStr s) \<and> trim s = []"
  with announcementSchema_imageUrl [of ev kvs a] imageUrl_field_blank [of s]
  show "ai_imageUrl a = Null" by simp
next
  assume m: "Some [] \<notin> set (map p_imageUrl (partner_tbl w))"
  show "Some [] \<notin> set (map p_imageUrl (partner_tbl (snd (partners_PUT ev w i b))))"
  proof (cases "partnerSchema ev b")
    case None
    with m show ?thesis by (simp add: partners_PUT_def)
  next
    case (Some parsed)
    then obtain kvs' where "b = JObj kvs'" using schema_object(1) by blast
    with Some have ne: "pi_imageUrl parsed \<noteq> Str []"
      using partnerSchema_imageUrl imageUrl_field_not_empty by blast
    then have col: "as_column (pi_imageUrl parsed) \<noteq> Some []"
      by (cases "pi_imageUrl parsed") (auto simp: as_column_def)
    from m Some col show ?thesis
      by (auto simp: partners_PUT_def partner_update_def Let_def partner_set_def
            case_deleteUploadIfLocal deleteUploadIfLocal_tables image_iff
          split: option.splits if_splits)
  qed
next
  assume m: "Some [] \<notin> set (map a_imageUrl (announcement_tbl w))"
  show "Some [] \<notin> set (map a_imageUrl (announcement_tbl (snd (announcements_PUT ev w i b))))"
  proof (cases "announcementSchema ev b")
    case None
    with m show ?thesis by (simp add: announcements_PUT_def)
  next
    case (Some parsed)
    then obtain kvs' where "b = JObj kvs'" using schema_object(3) by blast
    with Some have ne: "ai_imageUrl parsed \<noteq> Str []"
      using announcementSchema_imageUrl imageUrl_field_not_empty by blast
    then have col: "as_column (ai_imageUrl parsed) \<noteq> Some []"
      by (cases "ai_imageUrl parsed") (auto simp: as_column_def)
    from m Some col show ?thesis
      by (auto simp: announcements_PUT_def announcement_update_def Let_def announcement_set_def
            case_deleteUploadIfLocal deleteUploadIfLocal_tables image_iff
          split: option.splits if_splits)
  qed
qed


lemma trim_spaces: "trim ''  '' = []"
  by (simp add: trim_def isWhiteSpace_def)

theorem blank_imageUrl_parses_to_null_witness:
  "partnerSchema example_env
      (JObj [(''name'', JStr ''OKX''), (''categoryId'', JStr ''c1''),
             (''link'', JStr ''https://okx.com''), (''featured'', JBool True),
             (''imageUrl'', JStr ''  '')])
     = Some \<lparr>pi_name = ''OKX'', pi_categoryId = ''c1'', pi_link = ''https://okx.com'',
             pi_featured = True, pi_imageUrl = Null\<rparr> \<and>
   categorySchema (JObj [(''name'', JStr ''Media''), (''imageUrl'', JStr [])])
     = Some \<lparr>ci_name = ''Media'', ci_imageUrl = Null\<rparr> \<and>
   announcementSchema example_env
      (JObj [(''title'', JStr ''Launch''), (''description'', JStr ''We are live''),
             (''link'', JStr ''https://trl.example/launch''), (''datePublished'', JNum 86400000),
             (''imageUrl'', JStr ''  '')])
     = Some \<lparr>ai_title = ''Launch'', ai_description = ''We are live'',
             ai_link = ''https://trl.example/launch'', ai_datePublished = 86400000,
             ai_imageUrl = Null\<rparr> \<and>
   Some [] \<notin> set (map p_imageUrl (partner_tbl example_world)) \<and>
   Some [] \<notin> set (map p_imageUrl (partner_tbl
       (snd (partners_PUT example_env example_world ''p1'' (partner_body (Some (JStr ''  ''))))))) \<and>
   Some [] \<notin> set (map a_imageUrl (announcement_tbl example_world)) \<and>
   Some [] \<notin> set (map a_imageUrl (announcement_tbl
       (snd (announcements_PUT example_env example_world ''a1''
               (announcement_body (Some (JStr ''  '')))))))"
proof -
  let ?kp = "[(''name'', JStr ''OKX''), (''categoryId'', JStr ''c1''),
              (''link'', JStr ''https://okx.com''), (''featured'', JBool True),
              (''imageUrl'', JStr ''  '')]"
  let ?kc = "[(''name'', JStr ''Media''), (''imageUrl'', JStr [])]"
  let ?ka = "[(''title'', JStr ''Launch''), (''description'', JStr ''We are live''),
              (''link'', JStr ''https://trl.example/launch''), (''datePublished'', JNum 86400000),
              (''imageUrl'', JStr ''  '')]"
  have pb: "JObj ?kp = partner_body (Some (JStr ''  ''))"
    and ab: "JObj ?ka = announcement_body (Some (JStr ''  ''))"
    by (simp_all add: partner_body_def announcement_body_def)
  obtain p where p: "partnerSchema example_env (JObj ?kp) = Some p"
    and p_rest: "p\<lparr>pi_imageUrl := Null\<rparr> = \<lparr>pi_name = ''OKX'', pi_categoryId = ''c1'',
       pi_link = ''https://okx.com'', pi_featured = True, pi_imageUrl = Null\<rparr>"
    unfolding pb by (simp add: partnerSchema_example imageUrl_field_def trim_spaces)
  obtain c where c: "categorySchema (JObj ?kc) = Some c"
    and c_rest: "c\<lparr>ci_imageUrl := Null\<rparr> = \<lparr>ci_name = ''Media'', ci_imageUrl = Null\<rparr>"
    by (simp add: categorySchema_def z_string_def imageUrl_field_def trim_def isWhiteSpace_def)
  obtain a where a: "announcementSchema example_env (JObj ?ka) = Some a"
    and a_rest: "a\<lparr>ai_imageUrl := Null\<rparr> = \<lparr>ai_title = ''Launch'', ai_description = ''We are live'',
       ai_link = ''https://trl.example/launch'', ai_datePublished = 86400000, ai_imageUrl = Null\<rparr>"
    unfolding ab by (simp add: announcementSchema_example imageUrl_field_def trim_spaces)
  have mp: "map_of ?kp ''imageUrl'' = Some (JStr ''  '') \<and> trim ''  '' = []"
    and mc: "map_of ?kc ''imageUrl'' = Some (JStr []) \<and> trim [] = []"
    and ma: "map_of ?ka ''imageUrl'' = Some (JStr ''  '') \<and> trim ''  '' = []"
    by (simp_all add: trim_def isWhiteSpace_def)
  have np: "Some [] \<notin> set (map p_imageUrl (partner_tbl example_world))"
    and na: "Some [] \<notin> set (map a_imageUrl (announcement_tbl example_world))"
    by (simp_all add: example_world_def)
  from blank_imageUrl_parses_to_null [of example_env ?kp p, THEN conjunct1, rule_format, OF p]
  have "pi_imageUrl p = Null" using mp by blast
  with p p_rest have r1: "partnerSchema example_env (JObj ?kp)
     = Some \<lparr>pi_name = ''OKX'', pi_categoryId = ''c1'', pi_link = ''https://okx.com'',
             pi_featured = True, pi_imageUrl = Null\<rparr>"
    by (metis PartnerInput.surjective PartnerInput.update_convs(5))
  from blank_imageUrl_parses_to_null [of _ ?kc _ c, THEN conjunct2, THEN conjunct1, rule_format, OF c]
  have "ci_imageUrl c = Null" using mc by blast
  with c c_rest have r2: "categorySchema (JObj ?kc) = Some \<lparr>ci_name = ''Media'', ci_imageUrl = Null\<rparr>"
    by (metis CategoryInput.surjective CategoryInput.update_convs(2))
  from blank_imageUrl_parses_to_null [of example_env ?ka _ _ a,
      THEN conjunct2, THEN conjunct2, THEN conjunct1, rule_format, OF a]
  have "ai_imageUrl a = Null" using ma by blast
  with a a_rest have r3: "announcementSchema example_env (JObj ?ka)
     = Some \<lparr>ai_title = ''Launch'', ai_description = ''We are live'',
             ai_link = ''https://trl.example/launch'', ai_datePublished = 86400000,
             ai_imageUrl = Null\<rparr>"
    by (metis AnnouncementInput.surjective AnnouncementInput.update_convs(5))
  from blank_imageUrl_parses_to_null [of example_env _ _ _ _ example_world "''p1''"
      "partner_body (Some (JStr ''  ''))"] np
  have r4: "Some [] \<notin> set (map p_imageUrl (partner_tbl
       (snd (partners_PUT example_env example_world ''p1'' (partner_body (Some (JStr ''  '')))))))"
    by blast
  from blank_imageUrl_parses_to_null [of example_env _ _ _ _ example_world "''a1''"
      "announcement_body (Some (JStr ''  ''))"] na
  have r5: "Some [] \<notin> set (map a_imageUrl (announcement_tbl
       (snd (announcements_PUT example_env example_world ''a1''
               (announcement_body (Some (JStr ''  '')))))))"
    by blast
  from r1 r2 r3 np r4 na r5 show ?thesis by blast
qed

section \<open>The upload route\<close>

text \<open>
  C4 (as amended). An upload whose declared media type is not one of the four allowed
  types is answered 400 \<open>Unsupported file type\<close>; an upload of an allowed type with more
  than 5 MiB is answered 400 \<open>File too large (max 5MB)\<close>. In both cases the state is
  unchanged: no directory is made and no file is written.
\<close>

theorem upload_rejects_type_then_size:
  "MAX_BYTES = 5242880 \<and>
   (file_type f \<notin> set ALLOWED \<longrightarrow>
      upload_POST ev w (FileValue f) = (Inr (400, Error ''Unsupported file type''), w)) \<and>
   (file_type f \<in> set ALLOWED \<and> length (file_bytes f) > MAX_BYTES \<longrightarrow>
      upload_POST ev w (FileValue f) = (Inr (400, Error ''File too large (max 5MB)''), w))"
proof (intro conjI impI)
  show "MAX_BYTES = 5242880" by (simp add: MAX_BYTES_def)
next
  assume "file_type f \<notin> set ALLOWED"
  moreover have "''application/octet-stream'' \<notin> set ALLOWED" by (simp add: ALLOWED_def)
  ultimately show "upload_POST ev w (FileValue f) = (Inr (400, Error ''Unsupported file type''), w)"
    by (simp add: upload_POST_def Let_def)
next
  assume a: "file_type f \<in> set ALLOWED \<and> length (file_bytes f) > MAX_BYTES"
  then have "file_type f \<noteq> []" by (auto simp: ALLOWED_def)
  with a show "upload_POST ev w (FileValue f) = (Inr (400, Error ''File too large (max 5MB)''), w)"
    by (simp add: upload_POST_def Let_def)
qed

theorem upload_rejects_type_then_size_witness:
  "''text/plain'' \<notin> set ALLOWED \<and>
   upload_POST example_env example_world
      (FileValue \<lparr>file_name = ''notes.txt'', file_type = ''text/plain'', file_bytes = [1, 2]\<rparr>)
     = (Inr (400, Error ''Unsupported file type''), example_world) \<and>
   ''image/png'' \<in> set ALLOWED \<and>
   length (replicate (6 * 1024 * 1024) (0 :: byte)) > MAX_BYTES \<and>
   upload_POST example_env example_world
      (FileValue \<lparr>file_name = ''big.png'', file_type = ''image/png'',
                  file_bytes = replicate (6 * 1024 * 1024) 0\<rparr>)
     = (Inr (400, Error ''File too large (max 5MB)''), example_world)"
proof -
  have t: "''text/plain'' \<notin> set ALLOWED" and p: "''image/png'' \<in> set ALLOWED"
    by (simp_all add: ALLOWED_def)
  have l: "length (replicate (6 * 1024 * 1024) (0 :: byte)) > MAX_BYTES"
    by (simp add: MAX_BYTES_def)
  from upload_rejects_type_then_size
         [of "\<lparr>file_name = ''notes.txt'', file_type = ''text/plain'', file_bytes = [1, 2]\<rparr>"
             example_env example_world] t
  have r1: "upload_POST example_env example_world
      (FileValue \<lparr>file_name = ''notes.txt'', file_type = ''text/plain'', file_bytes = [1, 2]\<rparr>)
     = (Inr (400, Error ''Unsupported file type''), example_world)"
    by simp
  from upload_rejects_type_then_size
         [of "\<lparr>file_name = ''big.png'', file_type = ''image/png'',
               file_bytes = replicate (6 * 1024 * 1024) 0\<rparr>" example_env example_world] p l
  have r2: "upload_POST example_env example_world
      (FileValue \<lparr>file_name = ''big.png'', file_type = ''image/png'',
                  file_bytes = replicate (6 * 1024 * 1024) 0\<rparr>)
     = (Inr (400, Error ''File too large (max 5MB)''), example_world)"
    by simp
  from t r1 p l r2 show ?thesis by blast
qed

text \<open>
  C4 as stated fails for a file that is both too large and of a type that is not allowed:
  the type is checked first, so the answer is \<open>Unsupported file type\<close>, not
  \<open>File too large (max 5MB)\<close>.
\<close>

theorem upload_large_text_file_counterexample:
  "length (file_bytes \<lparr>file_name = ''notes.txt'', file_type = ''text/plain'',
                        file_bytes = replicate (6 * 1024 * 1024) (0 :: byte)\<rparr>) > MAX_BYTES \<and>
   fst (upload_POST example_env example_world
          (FileValue \<lparr>file_name = ''notes.txt'', file_type = ''text/plain'',
                      file_bytes = replicate (6 * 1024 * 1024) 0\<rparr>))
     = Inr (400, Error ''Unsupported file type'') \<and>
   fst (upload_POST example_env example_world
          (FileValue \<lparr>file_name = ''notes.txt'', file_type = ''text/plain'',
                      file_bytes = replicate (6 * 1024 * 1024) 0\<rparr>))
     \<noteq> Inr (400, Error ''File too large (max 5MB)'')"
  by (simp add: upload_POST_def MAX_BYTES_def ALLOWED_def)

text \<open>
  C6. The upload route module exports a \<open>POST\<close> handler only. A \<open>DELETE\<close> request to
  \<open>/api/upload\<close> reaches no handler of the repository: it is answered 405 with no body
  and the state is unchanged, whether or not the address names a stored file.
\<close>

theorem upload_route_has_no_DELETE:
  "DELETE \<notin> set upload_route_exports \<and>
   upload_route ev w DELETE file = (Inr (405, NoBody), w)"
  by (simp add: upload_route_exports_def upload_route_def)

lemma upload_POST_accepts:
  "fst (upload_POST example_env example_world
      (FileValue \<lparr>file_name = ''a.png'', file_type = ''image/png'', file_bytes = [1, 2]\<rparr>))
   = Inr (201, Url ''/uploads/1700000000000_deadbeef0001.png'')"
  by (simp add: upload_POST_def ALLOWED_def MAX_BYTES_def Let_def example_env_def show_int_def
        show_nat.simps toHex_def digit_def)

section \<open>Listings\<close>

lemma mset_insert_by: "mset (insert_by le x xs) = add_mset x (mset xs)"
  by (induction xs) auto

lemma mset_orderBy: "mset (orderBy le xs) = mset xs"
  unfolding orderBy_def by (induction xs) (auto simp: mset_insert_by)

lemma set_insert_by: "set (insert_by le x xs) = insert x (set xs)"
  using mset_insert_by [of le x xs] by (metis set_mset_add_mset_insert set_mset_mset)

lemma set_orderBy: "set (orderBy le xs) = set xs"
  using mset_orderBy [of le xs] by (metis set_mset_mset)

lemma sorted_insert_by:
  assumes total: "\<And>x y. le x y \<or> le y x"
    and trans: "\<And>x y z. le x y \<Longrightarrow> le y z \<Longrightarrow> le x z"
    and sorted: "sorted_wrt le xs"
  shows "sorted_wrt le (insert_by le x xs)"
  using sorted
proof (induction xs)
  case Nil
  show ?case by simp
next
  case (Cons y ys)
  show ?case
  proof (cases "le x y")
    case True
    with Cons.prems trans show ?thesis by auto
  next
    case False
    with total have "le y x" by blast
    with False Cons show ?thesis by (auto simp: set_insert_by)
  qed
qed

lemma sorted_orderBy:
  assumes "\<And>x y. le x y \<or> le y x" and "\<And>x y z. le x y \<Longrightarrow> le y z \<Longrightarrow> le x z"
  shows "sorted_wrt le (orderBy le xs)"
  unfolding orderBy_def
proof (induction xs)
  case Nil
  show ?case by simp
next
  case (Cons x xs)
  from sorted_insert_by [of le, OF assms Cons] show ?case by simp
qed

text \<open>
  C9 (as amended). Each list handler answers 200 with all rows of its table, ordered:
  categories by name ascending, partners by creation time descending, announcements by
  publication date descending and, for equal dates, by creation time descending.
\<close>

theorem list_handlers_order:
  "(\<exists>xs. categories_GET w = (200, Items xs) \<and> mset xs = mset (category_tbl w) \<and>
         sorted_wrt (\<lambda>x y. cat_name x \<le> cat_name y) xs) \<and>
   (\<exists>xs. partners_GET w = (200, Items xs) \<and> mset xs = mset (partner_tbl w) \<and>
         sorted_wrt (\<lambda>x y. p_createdAt x \<ge> p_createdAt y) xs) \<and>
   (\<exists>xs. announcements_GET w = (200, Items xs) \<and> mset xs = mset (announcement_tbl w) \<and>
         sorted_wrt (\<lambda>x y. a_datePublished x > a_datePublished y
                       \<or> (a_datePublished x = a_datePublished y \<and> a_createdAt x \<ge> a_createdAt y)) xs)"
proof (intro conjI)
  have "sorted_wrt (\<lambda>x y. cat_name x \<le> cat_name y)
          (orderBy (\<lambda>x y. cat_name x \<le> cat_name y) (category_tbl w))"
    by (rule sorted_orderBy) auto
  then show "\<exists>xs. categories_GET w = (200, Items xs) \<and> mset xs = mset (category_tbl w) \<and>
         sorted_wrt (\<lambda>x y. cat_name x \<le> cat_name y) xs"
    by (simp add: categories_GET_def mset_orderBy)
next
  have "sorted_wrt (\<lambda>x y. p_createdAt x \<ge> p_createdAt y)
          (orderBy (\<lambda>x y. p_createdAt x \<ge> p_createdAt y) (partner_tbl w))"
    by (rule sorted_orderBy) auto
  then show "\<exists>xs. partners_GET w = (200, Items xs) \<and> mset xs = mset (partner_tbl w) \<and>
         sorted_wrt (\<lambda>x y. p_createdAt x \<ge> p_createdAt y) xs"
    by (simp add: partners_GET_def mset_orderBy)
next
  let ?le = "\<lambda>x y. a_datePublished x > a_datePublished y
                \<or> (a_datePublished x = a_datePublished y \<and> a_createdAt x \<ge> a_createdAt y)"
  have "sorted_wrt ?le (orderBy ?le (announcement_tbl w))"
    by (rule sorted_orderBy) auto
  then show "\<exists>xs. announcements_GET w = (200, Items xs) \<and> mset xs = mset (announcement_tbl w) \<and>
         sorted_wrt ?le xs"
    by (simp add: announcements_GET_def mset_orderBy)
qed

text \<open>
  C9 as stated fails for announcements: \<open>a1\<close> was created before \<open>a2\<close> and has the later
  publication date, so it is listed first, and the list is not in descending order of
  creation time.
\<close>

theorem announcements_not_by_creation_counterexample:
  "map (\<lambda>r. (a_id r, a_datePublished r, a_createdAt r))
       (case snd (announcements_GET example_world) of Items xs \<Rightarrow> xs | _ \<Rightarrow> [])
     = [(''a1'', 200, 50), (''a2'', 100, 60)] \<and>
   \<not> sorted_wrt (\<lambda>x y. a_createdAt x \<ge> a_createdAt y)
       (case snd (announcements_GET example_world) of Items xs \<Rightarrow> xs | _ \<Rightarrow> [])"
  by (simp add: announcements_GET_def orderBy_def example_world_def)

theorem list_handlers_order_witness:
  "map cat_name (case snd (categories_GET example_world) of Items xs \<Rightarrow> xs | _ \<Rightarrow> [])
     = [''Brand'', ''Exchange''] \<and>
   sorted_wrt (\<lambda>x y. cat_name x \<le> cat_name y)
     (case snd (categories_GET example_world) of Items xs \<Rightarrow> xs | _ \<Rightarrow> [])"
proof -
  from list_handlers_order [of example_world] obtain xs where
    "categories_GET example_world = (200, Items xs)"
    "sorted_wrt (\<lambda>x y. cat_name x \<le> cat_name y) xs"
    by blast
  then have s: "sorted_wrt (\<lambda>x y. cat_name x \<le> cat_name y)
     (case snd (categories_GET example_world) of Items xs \<Rightarrow> xs | _ \<Rightarrow> [])"
    by simp
  have "map cat_name (case snd (categories_GET example_world) of Items xs \<Rightarrow> xs | _ \<Rightarrow> [])
     = [''Brand'', ''Exchange'']"
    by (simp add: categories_GET_def orderBy_def example_world_def)
  with s show ?thesis by blast
qed

section \<open>Categories in the in-memory store\<close>

lemma toLowerCase_Exchange: "toLowerCase ''Exchange'' = toLowerCase ''exchange''"
  by (simp add: toLowerCase_def isUpper_def)

text \<open>
  C7 (as amended). In the in-memory store, \<open>createCategory\<close> with a name whose
  \<open>toLowerCase()\<close> equals that of a stored category's name throws
  \<open>Category already exists\<close> and leaves the store as it was; \<open>createCategory\<close>
  therefore keeps the stored names distinct up to \<open>toLowerCase()\<close>.
\<close>

theorem createCategory_rejects_case_variant:
  "((\<exists>c \<in> set (db_categories s). toLowerCase (Category_name c) = toLowerCase name) \<longrightarrow>
      createCategory rnd s name = (Inl (JsError ''Category already exists''), s)) \<and>
   (distinct (map (\<lambda>c. toLowerCase (Category_name c)) (db_categories s)) \<longrightarrow>
      distinct (map (\<lambda>c. toLowerCase (Category_name c))
                 (db_categories (snd (createCategory rnd s name)))))"
proof (intro conjI impI)
  assume "\<exists>c \<in> set (db_categories s). toLowerCase (Category_name c) = toLowerCase name"
  then have "list_ex (\<lambda>c. toLowerCase (Category_name c) = toLowerCase name) (db_categories s)"
    by (simp add: list_ex_iff)
  then show "createCategory rnd s name = (Inl (JsError ''Category already exists''), s)"
    by (simp add: createCategory_def)
next
  assume d: "distinct (map (\<lambda>c. toLowerCase (Category_name c)) (db_categories s))"
  show "distinct (map (\<lambda>c. toLowerCase (Category_name c))
                 (db_categories (snd (createCategory rnd s name))))"
  proof (cases "list_ex (\<lambda>c. toLowerCase (Category_name c) = toLowerCase name) (db_categories s)")
    case True
    with d show ?thesis by (simp add: createCategory_def)
  next
    case False
    then have "toLowerCase name \<notin> (\<lambda>c. toLowerCase (Category_name c)) ` set (db_categories s)"
      by (auto simp: list_ex_iff)
    with d False show ?thesis by (simp add: createCategory_def Let_def)
  qed
qed

theorem createCategory_rejects_case_variant_witness:
  "(\<exists>c \<in> set (db_categories (initial_db ''2024-01-01T00:00:00.000Z'' ''2024-01-01T00:00:00.001Z'')).
      toLowerCase (Category_name c) = toLowerCase ''exchange'') \<and>
   createCategory ''k3j9x2ab'' (initial_db ''2024-01-01T00:00:00.000Z'' ''2024-01-01T00:00:00.001Z'')
       ''exchange''
     = (Inl (JsError ''Category already exists''),
        initial_db ''2024-01-01T00:00:00.000Z'' ''2024-01-01T00:00:00.001Z'') \<and>
   distinct (map (\<lambda>c. toLowerCase (Category_name c))
      (db_categories (initial_db ''2024-01-01T00:00:00.000Z'' ''2024-01-01T00:00:00.001Z''))) \<and>
   distinct (map (\<lambda>c. toLowerCase (Category_name c))
      (db_categories (snd (createCategory ''k3j9x2ab''
         (initial_db ''2024-01-01T00:00:00.000Z'' ''2024-01-01T00:00:00.001Z'') ''Wallet''))))"
proof -
  let ?s = "initial_db ''2024-01-01T00:00:00.000Z'' ''2024-01-01T00:00:00.001Z''"
  have h: "\<exists>c \<in> set (db_categories ?s). toLowerCase (Category_name c) = toLowerCase ''exchange''"
    by (simp add: initial_db_def toLowerCase_Exchange)
  have d: "distinct (map (\<lambda>c. toLowerCase (Category_name c)) (db_categories ?s))"
    by (simp add: initial_db_def toLowerCase_def isUpper_def)
  from createCategory_rejects_case_variant [of ?s "''exchange''" "''k3j9x2ab''"] h
  have r1: "createCategory ''k3j9x2ab'' ?s ''exchange''
              = (Inl (JsError ''Category already exists''), ?s)"
    by blast
  from createCategory_rejects_case_variant [of ?s "''Wallet''" "''k3j9x2ab''"] d
  have r2: "distinct (map (\<lambda>c. toLowerCase (Category_name c))
      (db_categories (snd (createCategory ''k3j9x2ab'' ?s ''Wallet''))))"
    by blast
  from h r1 d r2 show ?thesis by blast
qed

lemma categories_POST_rejects_stored_name:
  assumes "categorySchema b = Some parsed"
    and "ci_name parsed \<in> set (map cat_name (category_tbl w))"
  shows "categories_POST ev w new_id b = (Inl UniqueViolation, w)"
  using assms by (simp add: categories_POST_def category_create_def)

text \<open>
  C7 as stated fails outside \<open>createCategory\<close>. The relational path compares names as
  they are: with \<open>Exchange\<close> stored, \<open>POST /api/categories\<close> with \<open>exchange\<close> answers
  201 and both names are stored. In the in-memory store \<open>updateCategory\<close> checks nothing:
  renaming \<open>cat_brand\<close> to \<open>exchange\<close> succeeds next to \<open>Exchange\<close>.
\<close>

theorem category_case_variant_accepted_counterexample:
  "toLowerCase ''exchange'' = toLowerCase ''Exchange'' \<and>
   map cat_name (category_tbl example_world) = [''Exchange'', ''Brand''] \<and>
   fst (categories_POST example_env example_world ''c3'' (JObj [(''name'', JStr ''exchange'')]))
     = Inr (201, Data \<lparr>cat_id = ''c3'', cat_name = ''exchange'', cat_imageUrl = None,
                        cat_createdAt = 1700000000000, cat_updatedAt = 1700000000000\<rparr>) \<and>
   map cat_name (category_tbl
       (snd (categories_POST example_env example_world ''c3'' (JObj [(''name'', JStr ''exchange'')]))))
     = [''Exchange'', ''Brand'', ''exchange''] \<and>
   map Category_name (db_categories
       (snd (updateCategory (initial_db ''2024-01-01T00:00:00.000Z'' ''2024-01-01T00:00:00.001Z'')
               ''cat_brand'' ''exchange'')))
     = [''Exchange'', ''exchange'', ''Media''] \<and>
   fst (updateCategory (initial_db ''2024-01-01T00:00:00.000Z'' ''2024-01-01T00:00:00.001Z'')
          ''cat_brand'' ''exchange'')
     = Some \<lparr>Category_id = ''cat_brand'', Category_name = ''exchange''\<rparr>"
proof (intro conjI)
  show "toLowerCase ''exchange'' = toLowerCase ''Exchange''"
    by (simp add: toLowerCase_def isUpper_def)
  show "map cat_name (category_tbl example_world) = [''Exchange'', ''Brand'']"
    by (simp add: example_world_def)
  have parsed: "categorySchema (JObj [(''name'', JStr ''exchange'')])
                  = Some \<lparr>ci_name = ''exchange'', ci_imageUrl = Undefined\<rparr>"
    by (simp add: categorySchema_def z_string_def imageUrl_field_def trim_def isWhiteSpace_def)
  show "fst (categories_POST example_env example_world ''c3'' (JObj [(''name'', JStr ''exchange'')]))
     = Inr (201, Data \<lparr>cat_id = ''c3'', cat_name = ''exchange'', cat_imageUrl = None,
                        cat_createdAt = 1700000000000, cat_updatedAt = 1700000000000\<rparr>)"
    by (simp add: categories_POST_def parsed category_create_def as_column_def now_example
          example_world_def Let_def)
  show "map cat_name (category_tbl
       (snd (categories_POST example_env example_world ''c3'' (JObj [(''name'', JStr ''exchange'')]))))
     = [''Exchange'', ''Brand'', ''exchange'']"
    by (simp add: categories_POST_def parsed category_create_def as_column_def now_example
          example_world_def Let_def)
  show "map Category_name (db_categories
       (snd (updateCategory (initial_db ''2024-01-01T00:00:00.000Z'' ''2024-01-01T00:00:00.001Z'')
               ''cat_brand'' ''exchange'')))
     = [''Exchange'', ''exchange'', ''Media'']"
    by (simp add: updateCategory_def initial_db_def Let_def)
  show "fst (updateCategory (initial_db ''2024-01-01T00:00:00.000Z'' ''2024-01-01T00:00:00.001Z'')
          ''cat_brand'' ''exchange'')
     = Some \<lparr>Category_id = ''cat_brand'', Category_name = ''exchange''\<rparr>"
    by (simp add: updateCategory_def initial_db_def Let_def)
qed

lemma createCategory_fresh:
  "createCategory ''k3j9x2ab'' (initial_db t1 t2) ''Wallet''
     = (Inr \<lparr>Category_id = ''cat_k3j9x2ab'', Category_name = ''Wallet''\<rparr>,
        (initial_db t1 t2)\<lparr>db_categories :=
           \<lparr>Category_id = ''cat_k3j9x2ab'', Category_name = ''Wallet''\<rparr>
             # db_categories (initial_db t1 t2)\<rparr>)"
  by (simp add: createCategory_def initial_db_def newId_def toLowerCase_def isUpper_def Let_def)

lemma deleteCategory_partners:
  "db_partners (snd (deleteCategory s i))
     = map (\<lambda>p. if categoryId p = i then p\<lparr>categoryId := []\<rparr> else p) (db_partners s)"
  by (simp add: deleteCategory_def Let_def)

lemma deleteCategory_keeps_partners:
  "length (db_partners (snd (deleteCategory s i))) = length (db_partners s) \<and>
   map Partner_id (db_partners (snd (deleteCategory s i))) = map Partner_id (db_partners s) \<and>
   length (filter (\<lambda>(p, p'). p' \<noteq> p) (zip (db_partners s) (db_partners (snd (deleteCategory s i)))))
     \<le> length (filter (\<lambda>p. categoryId p = i) (db_partners s))"
proof -
  have "length (filter (\<lambda>(p, p'). p' \<noteq> p)
           (zip ps (map (\<lambda>p. if categoryId p = i then p\<lparr>categoryId := []\<rparr> else p) ps)))
        \<le> length (filter (\<lambda>p. categoryId p = i) ps)" for ps
    by (induction ps) auto
  moreover have "map Partner_id (map (\<lambda>p. if categoryId p = i then p\<lparr>categoryId := []\<rparr> else p) ps)
        = map Partner_id ps" for ps
    by (induction ps) auto
  ultimately show ?thesis by (simp add: deleteCategory_partners)
qed

lemma deleteCategory_unlisted:
  "i \<notin> Category_id ` set (listCategories localeCompare (snd (deleteCategory s i)))"
  by (auto simp: listCategories_def set_orderBy deleteCategory_def Let_def)


text \<open>
  The relational path: deleting a category row sets the \<open>categoryId\<close> of exactly the
  referencing partner rows to NULL, deletes no partner row, and the category is no longer
  listed.
\<close>

lemma category_delete_sets_null:
  assumes "category_delete w i = (Inr old, w')"
  shows "partner_tbl w' = map (\<lambda>p. if p_categoryId p = Some i then p\<lparr>p_categoryId := None\<rparr> else p)
                             (partner_tbl w)"
    and "length (partner_tbl w') = length (partner_tbl w)"
    and "Some i \<notin> p_categoryId ` set (partner_tbl w')"
    and "i \<notin> cat_id ` set (case snd (categories_GET w') of Items xs \<Rightarrow> xs | _ \<Rightarrow> [])"
  using assms
  by (auto simp: category_delete_def categories_GET_def set_orderBy split: option.splits if_splits)

end
